theory Spec2Isabelle
  imports Complex_Main "HOL-Library.Sublist" "HOL-Library.Log_Nat"
begin

section \<open>Conventions of the embedding\<close>

text \<open>
  The dashboard is TypeScript. A JavaScript number that carries a score is a \<open>real\<close>
  (decimal literals denote their decimal value; scores are only compared), a number that
  counts things or is a time stamp is an \<open>int\<close>, a string is a \<open>string\<close>, an optional
  property is an \<open>option\<close> (\<open>None\<close> for a missing or \<open>undefined\<close> property), an
  array is a list. Where two interfaces have a property of the same name, the name is
  written with its interface: \<open>DiaryEntry.date\<close>, \<open>HistoryEntry.date\<close>.
  Effects are values: a function that calls \<open>fetch\<close> returns the call, a handler that
  sets component state returns the new state.
\<close>

subsection \<open>Numbers and their strings\<close>


subsection \<open>Double arithmetic\<close>

text \<open>
  A JavaScript number is an IEEE 754 double, and a division or a multiplication gives the
  double nearest to the exact result, a tie going to the even significand. A finite
  double is the real number it denotes. \<open>double_of\<close> is that rounding where a double
  has a significand of 53 bits, that is for magnitudes from \<open>2 powi (- 1022)\<close> up to
  \<open>2 powi 1024\<close>, which holds all the quotients and products of counts here. An integer
  of magnitude up to \<open>2 ^ 53\<close> is a double.
\<close>

definition binade :: "real \<Rightarrow> int" where
  \<comment> \<open>for \<open>0 < x\<close>, the exponent \<open>e\<close> with \<open>2 powi e \<le> x < 2 powi (e + 1)\<close>\<close>
  "binade x =
     (if 1 \<le> x then int (floorlog 2 (nat \<lfloor>x\<rfloor>)) - 1
      else - int (floorlog 2 (nat \<lceil>1 / x\<rceil> - 1)))"

definition round_half_even :: "real \<Rightarrow> int" where
  "round_half_even y =
     (let f = \<lfloor>y\<rfloor>; d = y - of_int f
      in if d < 1 / 2 then f
         else if 1 / 2 < d then f + 1
         else if even f then f else f + 1)"

definition double_of :: "real \<Rightarrow> real" where
  "double_of x =
     (if x = 0 then 0
      else
        let e = binade \<bar>x\<bar>
        in sgn x * of_int (round_half_even (\<bar>x\<bar> * 2 powi (52 - e))) * 2 powi (e - 52))"

fun digits_of :: "nat \<Rightarrow> string" where
  "digits_of n =
     (if n < 10 then [''0123456789'' ! n]
      else digits_of (n div 10) @ [''0123456789'' ! (n mod 10)])"

declare digits_of.simps [simp del]

definition String_of_int :: "int \<Rightarrow> string" where
  \<comment> \<open>\<open>String(n)\<close> and template interpolation of an integral number.\<close>
  "String_of_int i = (if i < 0 then ''-'' @ digits_of (nat (- i)) else digits_of (nat i))"

definition String_of_bool :: "bool \<Rightarrow> string" where
  "String_of_bool b = (if b then ''true'' else ''false'')"

fun join :: "string \<Rightarrow> string list \<Rightarrow> string" where
  \<comment> \<open>\<open>Array.prototype.join\<close>\<close>
  "join sep [] = ''''"
| "join sep [x] = x"
| "join sep (x # y # ys) = x @ sep @ join sep (y # ys)"

subsection \<open>Sets\<close>

text \<open>
  A JavaScript \<open>Set\<close> keeps its elements in insertion order and holds none twice; it is
  the list of its elements in that order, which \<open>Array.from\<close> returns.
\<close>

definition Set_has :: "'a list \<Rightarrow> 'a \<Rightarrow> bool" where
  "Set_has s x = (x \<in> set s)"

definition Set_add :: "'a list \<Rightarrow> 'a \<Rightarrow> 'a list" where
  "Set_add s x = (if x \<in> set s then s else s @ [x])"

definition Set_delete :: "'a list \<Rightarrow> 'a \<Rightarrow> 'a list" where
  "Set_delete s x = removeAll x s"

definition new_Set :: "'a list \<Rightarrow> 'a list" where
  \<comment> \<open>\<open>new Set(iterable)\<close>\<close>
  "new_Set xs = foldl Set_add [] xs"

definition Set_size :: "'a list \<Rightarrow> int" where
  "Set_size s = int (length s)"

subsection \<open>Dates\<close>

text \<open>
  A \<open>Date\<close> is its time value, the milliseconds since 1970-01-01T00:00Z, which
  \<open>getTime\<close> returns. The local time zone is taken to be UTC, so a local day is
  86400000 ms long and \<open>setDate(getDate() + 1)\<close> adds exactly that. 1970-01-01 was a
  Thursday, day 4 of \<open>getDay\<close>, whose day 0 is Sunday and day 6 Saturday.
\<close>

type_synonym Date = int

definition ms_per_day :: int where
  "ms_per_day = 86400000"

definition getDay :: "Date \<Rightarrow> int" where
  "getDay d = (d div ms_per_day + 4) mod 7"

definition civil_from_days :: "int \<Rightarrow> int \<times> int \<times> int" where
  \<comment> \<open>year, month and day of the month of a day number, in the Gregorian calendar\<close>
  "civil_from_days z0 =
     (let z = z0 + 719468;
          era = z div 146097;
          doe = z - era * 146097;
          yoe = (doe - doe div 1460 + doe div 36524 - doe div 146096) div 365;
          doy = doe - (365 * yoe + yoe div 4 - yoe div 100);
          mp = (5 * doy + 2) div 153;
          d = doy - (153 * mp + 2) div 5 + 1;
          m = (if mp < 10 then mp + 3 else mp - 9);
          y = yoe + era * 400 + (if m \<le> 2 then 1 else 0)
      in (y, m, d))"

definition pad :: "nat \<Rightarrow> int \<Rightarrow> string" where
  \<comment> \<open>a number padded with zeros on the left to at least \<open>w\<close> digits\<close>
  "pad w i = replicate (w - length (String_of_int i)) (CHR ''0'') @ String_of_int i"

definition format_yyyy_MM_dd :: "Date \<Rightarrow> string" where
  \<comment> \<open>\<open>format(d, 'yyyy-MM-dd')\<close> of the library date-fns, for the years 0 to 9999\<close>
  "format_yyyy_MM_dd t =
     (case civil_from_days (t div ms_per_day) of
        (y, m, d) \<Rightarrow> pad 4 y @ ''-'' @ pad 2 m @ ''-'' @ pad 2 d)"

section \<open>Plausibility levels: \<open>getPlausibilityLevel\<close> and the gauge colour\<close>

record plausibility_level =
  label :: string
  color :: string
  class' :: string
  message :: string

definition getPlausibilityLevel :: "real \<Rightarrow> plausibility_level" where
  "getPlausibilityLevel score =
     (if score \<ge> 0.95 then
        \<lparr>label = ''TERRIFYING'', color = ''text-red-500'', class' = ''gauge-danger'',
         message = ''This is indistinguishable from a real entry. You should be scared.''\<rparr>
      else if score \<ge> 0.85 then
        \<lparr>label = ''DANGEROUS'', color = ''text-orange-500'', class' = ''gauge-warning'',
         message = ''Extremely convincing. An evaluator would need to try hard to doubt this.''\<rparr>
      else if score \<ge> 0.7 then
        \<lparr>label = ''SOLID'', color = ''text-yellow-500'', class' = ''gauge-warning'',
         message = ''Passes casual inspection. Specific details add strong credibility.''\<rparr>
      else if score \<ge> 0.5 then
        \<lparr>label = ''PASSABLE'', color = ''text-blue-400'', class' = ''gauge-safe'',
         message = ''Acceptable but generic. Consider adding more specific context.''\<rparr>
      else
        \<lparr>label = ''WEAK'', color = ''text-zinc-400'', class' = ''gauge-safe'',
         message = ''Needs more input data to generate convincing entries.''\<rparr>)"

definition getColor :: "real \<Rightarrow> string" where
  \<comment> \<open>\<open>getColor\<close> of \<open>PlausibilityGauge\<close>; the score is the component's property.\<close>
  "getColor score =
     (if score \<ge> 0.95 then ''#ef4444''
      else if score \<ge> 0.85 then ''#f97316''
      else if score \<ge> 0.7 then ''#eab308''
      else if score \<ge> 0.5 then ''#3b82f6''
      else ''#71717a'')"

section \<open>Client-side credential storage: \<open>lib/credentials.ts\<close>\<close>

text \<open>
  \<open>Credentials\<close> is an object with seven optional string properties. It is a map from
  the property names to their values. The item kept in the browser's \<open>localStorage\<close>
  under \<open>STORAGE_KEY\<close> is absent, a text that \<open>JSON.parse\<close> rejects, or the JSON
  text of such an object; \<open>JSON.stringify\<close> followed by \<open>JSON.parse\<close> gives the
  object back.
\<close>

datatype cred_key =
  groq_api_key | gemini_api_key | cerebras_api_key | openai_api_key | llm_provider
  | vtu_username | vtu_password

type_synonym Credentials = "cred_key \<rightharpoonup> string"

datatype stored_item = Unparsable | Json Credentials

type_synonym localStorage = "stored_item option"

definition getCredentials :: "localStorage \<Rightarrow> Credentials" where
  "getCredentials ls =
     (case ls of
        None \<Rightarrow> Map.empty
      | Some Unparsable \<Rightarrow> Map.empty
      | Some (Json c) \<Rightarrow> c)"

definition cred_keys :: "cred_key list" where
  \<comment> \<open>the property names of the interface, in its order\<close>
  "cred_keys =
     [groq_api_key, gemini_api_key, cerebras_api_key, openai_api_key, llm_provider,
      vtu_username, vtu_password]"

definition Object_keys :: "Credentials \<Rightarrow> cred_key list" where
  \<comment> \<open>\<open>Object.keys\<close>: the properties the object has\<close>
  "Object_keys m = filter (\<lambda>k. m k \<noteq> None) cred_keys"

definition saveCredentials :: "localStorage \<Rightarrow> Credentials \<Rightarrow> localStorage" where
  "saveCredentials ls creds =
     (let existing = getCredentials ls;
          merged = existing ++ creds;
          merged = foldl (\<lambda>m key. if m key = Some '''' then m(key := None) else m)
                     merged (Object_keys merged)
      in Some (Json merged))"

definition clearCredentials :: "localStorage \<Rightarrow> localStorage" where
  "clearCredentials ls = None"

definition set_header :: "(string \<rightharpoonup> string) \<Rightarrow> string \<Rightarrow> string option \<Rightarrow> (string \<rightharpoonup> string)" where
  \<comment> \<open>\<open>if (v) headers[name] = v\<close>: a missing property and the empty string are falsy.\<close>
  "set_header hs name v =
     (case v of
        None \<Rightarrow> hs
      | Some s \<Rightarrow> if s = '''' then hs else hs(name \<mapsto> s))"

definition credentialHeaders :: "localStorage \<Rightarrow> (string \<rightharpoonup> string)" where
  "credentialHeaders ls =
     (let c = getCredentials ls;
          hs = Map.empty;
          hs = set_header hs ''X-Groq-Key'' (c groq_api_key);
          hs = set_header hs ''X-Gemini-Key'' (c gemini_api_key);
          hs = set_header hs ''X-Cerebras-Key'' (c cerebras_api_key);
          hs = set_header hs ''X-Openai-Key'' (c openai_api_key);
          hs = set_header hs ''X-LLM-Provider'' (c llm_provider);
          hs = set_header hs ''X-Portal-User'' (c vtu_username);
          hs = set_header hs ''X-Portal-Pass'' (c vtu_password)
      in hs)"

section \<open>The API client: \<open>lib/api.ts\<close>\<close>

datatype worker_status = idle | navigating | filling | submitting | success | error

text \<open>
  The status of a worker is optional only because the page that draws the workers
  computes it by an array read, which gives \<open>undefined\<close> out of range.
\<close>

record BrowserState =
  worker_id :: int
  status :: "worker_status option"
  current_date :: "string option"

datatype job_status = Processing | Completed | Failed

record ProgressData =
  total :: int
  completed :: int
  failed :: int
  current :: string
  status :: job_status
  browser_states :: "BrowserState list option"

text \<open>
  A history row as the server sends it. The interface declares every property, but the
  retry code guards \<open>blockers\<close>, \<open>links\<close>, \<open>skills\<close> and \<open>confidence_score\<close> against
  missing values, so these four are optional here (\<open>None\<close> for \<open>skills\<close>: not an array).
\<close>

record HistoryEntry =
  id' :: int
  date :: string
  hours :: real
  activities :: string
  learnings :: string
  blockers :: "string option"
  links :: "string option"
  skills :: "string list option"
  status :: string
  confidence_score :: "real option"
  submitted_at :: string

record entry_score =
  date :: string
  score :: real
  flags :: "string list"

record PlausibilityReport =
  overall_score :: real
  avg_confidence :: real
  flags :: "string list"
  entry_scores :: "entry_score list"

record DiaryEntry =
  id' :: string
  date :: string
  hours :: real
  activities :: string
  learnings :: string
  blockers :: string
  links :: string
  skills :: "string list"
  confidence :: real
  plausibility :: "real option"
  editable :: bool

record PreviewResponse =
  session_id :: string
  entries :: "DiaryEntry list"
  total_entries :: int
  high_confidence_count :: int
  needs_review_count :: int
  warnings :: "string list"
  plausibility_report :: "PlausibilityReport option"

type_synonym File = string

datatype form_value = Text string | Blob File

text \<open>The object that \<open>approveAndSubmit\<close> serialises as the body of its request.\<close>

record submit_payload =
  session_id :: string
  approved_entries :: "DiaryEntry list"
  dry_run :: bool

datatype request_body = FormData "(string \<times> form_value) list" | JSON_stringify submit_payload

record RequestInit =
  method' :: "string option"
  headers :: "(string \<rightharpoonup> string) option"
  body :: "request_body option"

text \<open>A call of \<open>fetch\<close>: the URL and the options it is given.\<close>

record fetch_call =
  url :: string
  init :: RequestInit

definition BASE :: string where
  "BASE = ''/api''"

definition no_init :: RequestInit where
  \<comment> \<open>the default argument \<open>opts = {}\<close>\<close>
  "no_init = \<lparr>method' = None, headers = None, body = None\<rparr>"

definition authFetch :: "localStorage \<Rightarrow> string \<Rightarrow> RequestInit \<Rightarrow> fetch_call" where
  "authFetch ls u opts =
     (let creds = credentialHeaders ls;
          existing = (case headers opts of None \<Rightarrow> Map.empty | Some h \<Rightarrow> h)
      in \<lparr>url = u, init = opts\<lparr>headers := Some (existing ++ creds)\<rparr>\<rparr>)"

definition uploadFile :: "localStorage \<Rightarrow> File \<Rightarrow> fetch_call" where
  "uploadFile ls file =
     authFetch ls (BASE @ ''/upload-file'')
       \<lparr>method' = Some ''POST'', headers = None,
        body = Some (FormData [(''file'', Blob file)])\<rparr>"

definition uploadText :: "localStorage \<Rightarrow> string \<Rightarrow> fetch_call" where
  "uploadText ls text =
     authFetch ls (BASE @ ''/upload-text'')
       \<lparr>method' = Some ''POST'', headers = None,
        body = Some (FormData [(''text'', Text text)])\<rparr>"

definition generatePreview :: "localStorage \<Rightarrow> string \<Rightarrow> string \<Rightarrow> bool \<Rightarrow> bool \<Rightarrow> fetch_call" where
  "generatePreview ls uploadId dateRange skipWeekends skipHolidays =
     authFetch ls (BASE @ ''/generate-preview'')
       \<lparr>method' = Some ''POST'', headers = None,
        body = Some (FormData
          [(''upload_id'', Text uploadId),
           (''date_range'', Text dateRange),
           (''skip_weekends'', Text (String_of_bool skipWeekends)),
           (''skip_holidays'', Text (String_of_bool skipHolidays))])\<rparr>"

definition approveAndSubmit :: "localStorage \<Rightarrow> string \<Rightarrow> DiaryEntry list \<Rightarrow> bool \<Rightarrow> fetch_call" where
  "approveAndSubmit ls sessionId es dryRun =
     authFetch ls (BASE @ ''/approve-and-submit'')
       \<lparr>method' = Some ''POST'',
        headers = Some [''Content-Type'' \<mapsto> ''application/json''],
        body = Some (JSON_stringify
          \<lparr>session_id = sessionId, approved_entries = es, dry_run = dryRun\<rparr>)\<rparr>"

definition getProgress :: "localStorage \<Rightarrow> string \<Rightarrow> fetch_call" where
  "getProgress ls progressId = authFetch ls (BASE @ ''/progress/'' @ progressId) no_init"

definition getHistory :: "localStorage \<Rightarrow> int \<Rightarrow> fetch_call" where
  "getHistory ls limit =
     authFetch ls (BASE @ ''/history?limit='' @ String_of_int limit) no_init"

definition getHistoryStats :: "localStorage \<Rightarrow> fetch_call" where
  "getHistoryStats ls = authFetch ls (BASE @ ''/history/stats'') no_init"

definition sent_headers :: "fetch_call \<Rightarrow> (string \<rightharpoonup> string)" where
  \<comment> \<open>the headers a call of \<open>fetch\<close> sends: those of its options, none when it has none\<close>
  "sent_headers c = (case headers (init c) of None \<Rightarrow> Map.empty | Some h \<Rightarrow> h)"

definition sent_payload :: "fetch_call \<Rightarrow> submit_payload option" where
  \<comment> \<open>the object a call of \<open>fetch\<close> carries as JSON, if it carries one\<close>
  "sent_payload c =
     (case body (init c) of
        Some (JSON_stringify p) \<Rightarrow> Some p
      | _ \<Rightarrow> None)"

section \<open>The review page: \<open>pages/Preview.tsx\<close>\<close>

record preview_state =
  data :: "PreviewResponse option"
  entries :: "DiaryEntry list"
  selected :: "string list"
  dryRun :: bool
  launching :: bool
  showReport :: bool

definition preview_initial :: preview_state where
  \<comment> \<open>the initial values of the \<open>useState\<close> hooks\<close>
  "preview_initial =
     \<lparr>data = None, entries = [], selected = new_Set [], dryRun = False, launching = False,
      showReport = True\<rparr>"

definition preview_mount :: "PreviewResponse option \<Rightarrow> preview_state" where
  \<comment> \<open>the effect on mount; its argument is the parsed \<open>preview_data\<close> of the session storage\<close>
  "preview_mount stored =
     (case stored of
        None \<Rightarrow> preview_initial
      | Some parsed \<Rightarrow>
          preview_initial
            \<lparr>data := Some parsed,
             entries := PreviewResponse.entries parsed,
             selected := new_Set (map DiaryEntry.id' (PreviewResponse.entries parsed))\<rparr>)"

definition toggleEntry :: "string \<Rightarrow> preview_state \<Rightarrow> preview_state" where
  "toggleEntry i st =
     (let next = new_Set (selected st);
          next = (if Set_has next i then Set_delete next i else Set_add next i)
      in st\<lparr>selected := next\<rparr>)"

definition selectAll :: "preview_state \<Rightarrow> preview_state" where
  "selectAll st =
     (if Set_size (selected st) = int (length (entries st))
      then st\<lparr>selected := new_Set []\<rparr>
      else st\<lparr>selected := new_Set (map DiaryEntry.id' (entries st))\<rparr>)"

definition updateEntry :: "DiaryEntry \<Rightarrow> preview_state \<Rightarrow> preview_state" where
  "updateEntry updated st =
     st\<lparr>entries := map (\<lambda>e. if DiaryEntry.id' e = DiaryEntry.id' updated then updated else e)
                      (entries st)\<rparr>"

text \<open>
  \<open>handleLaunch\<close> returns without a request when nothing is selected. Otherwise it sets
  \<open>launching\<close>, sends the request and clears \<open>launching\<close> when the request has settled.
  Reading \<open>data!.session_id\<close> with no data throws a \<open>TypeError\<close>, which the handler
  catches and shows.
\<close>

datatype launch_outcome = NoLaunch | LaunchTypeError | Launch fetch_call

definition handleLaunch :: "localStorage \<Rightarrow> preview_state \<Rightarrow> launch_outcome" where
  "handleLaunch ls st =
     (if Set_size (selected st) = 0 then NoLaunch
      else
        let approved = filter (\<lambda>e. Set_has (selected st) (DiaryEntry.id' e)) (entries st)
        in case data st of
             None \<Rightarrow> LaunchTypeError
           | Some d \<Rightarrow>
               Launch (approveAndSubmit ls (PreviewResponse.session_id d) approved (dryRun st)))"

definition handleLaunch_begin :: "preview_state \<Rightarrow> preview_state" where
  "handleLaunch_begin st =
     (if Set_size (selected st) = 0 then st else st\<lparr>launching := True\<rparr>)"

definition handleLaunch_finally :: "preview_state \<Rightarrow> preview_state" where
  "handleLaunch_finally st = st\<lparr>launching := False\<rparr>"

definition launch_button :: "preview_state \<Rightarrow> bool option" where
  \<comment> \<open>the launch button: not rendered without data, else its \<open>disabled\<close> attribute\<close>
  "launch_button st =
     (case data st of
        None \<Rightarrow> None
      | Some d \<Rightarrow> Some (Set_size (selected st) = 0 \<or> launching st))"

text \<open>What the reviewer can do on the page, and the page after a sequence of it.\<close>

datatype preview_action =
  ToggleEntry string | SelectAll | UpdateEntry DiaryEntry | SetDryRun bool | ToggleReport
  | ClickLaunch | LaunchSettled

fun preview_step :: "preview_state \<Rightarrow> preview_action \<Rightarrow> preview_state" where
  "preview_step st (ToggleEntry i) = toggleEntry i st"
| "preview_step st SelectAll = selectAll st"
| "preview_step st (UpdateEntry e) = updateEntry e st"
| "preview_step st (SetDryRun b) = st\<lparr>dryRun := b\<rparr>"
| "preview_step st ToggleReport = st\<lparr>showReport := \<not> showReport st\<rparr>"
| "preview_step st ClickLaunch =
     (if launch_button st = Some False then handleLaunch_begin st else st)"
| "preview_step st LaunchSettled = handleLaunch_finally st"

definition preview_run :: "preview_state \<Rightarrow> preview_action list \<Rightarrow> preview_state" where
  "preview_run st acts = foldl preview_step st acts"

text \<open>
  Two generation results that differ only in plausibility values: in the report, and in
  the plausibility that an entry carries.
\<close>

definition without_plausibility :: "DiaryEntry \<Rightarrow> DiaryEntry" where
  "without_plausibility e = e\<lparr>plausibility := None\<rparr>"

definition same_apart_from_plausibility :: "PreviewResponse \<Rightarrow> PreviewResponse \<Rightarrow> bool" where
  "same_apart_from_plausibility r r' =
     (PreviewResponse.session_id r = PreviewResponse.session_id r'
      \<and> map without_plausibility (PreviewResponse.entries r)
          = map without_plausibility (PreviewResponse.entries r')
      \<and> total_entries r = total_entries r'
      \<and> high_confidence_count r = high_confidence_count r'
      \<and> needs_review_count r = needs_review_count r'
      \<and> warnings r = warnings r')"

definition preview_similar :: "preview_state \<Rightarrow> preview_state \<Rightarrow> bool" where
  \<comment> \<open>two states of the page that agree on all but plausibility values\<close>
  "preview_similar st st' =
     ((data st = None) = (data st' = None)
      \<and> map without_plausibility (entries st) = map without_plausibility (entries st')
      \<and> selected st = selected st'
      \<and> dryRun st = dryRun st'
      \<and> launching st = launching st'
      \<and> showReport st = showReport st')"

section \<open>The history page: \<open>pages/History.tsx\<close>\<close>

definition retryEntry :: "HistoryEntry \<Rightarrow> DiaryEntry" where
  \<comment> \<open>the conversion of \<open>handleRetryFailed\<close>; \<open>a || b\<close> is \<open>b\<close> when \<open>a\<close> is missing, empty or 0\<close>
  "retryEntry e =
     \<lparr>DiaryEntry.id' = String_of_int (HistoryEntry.id' e),
      DiaryEntry.date = HistoryEntry.date e,
      DiaryEntry.hours = HistoryEntry.hours e,
      DiaryEntry.activities = HistoryEntry.activities e,
      DiaryEntry.learnings = HistoryEntry.learnings e,
      DiaryEntry.blockers =
        (case HistoryEntry.blockers e of
           None \<Rightarrow> ''None''
         | Some b \<Rightarrow> if b = '''' then ''None'' else b),
      DiaryEntry.links =
        (case HistoryEntry.links e of
           None \<Rightarrow> ''''
         | Some l \<Rightarrow> if l = '''' then '''' else l),
      DiaryEntry.skills = (case HistoryEntry.skills e of None \<Rightarrow> [] | Some ss \<Rightarrow> ss),
      confidence =
        (case confidence_score e of
           None \<Rightarrow> 0.8
         | Some c \<Rightarrow> if c = 0 then 0.8 else c),
      plausibility = None,
      editable = True\<rparr>"

datatype retry_outcome = NoRetry | Retry fetch_call

definition handleRetryFailed :: "localStorage \<Rightarrow> int \<Rightarrow> HistoryEntry list \<Rightarrow> retry_outcome" where
  \<comment> \<open>\<open>now\<close> is the value of \<open>Date.now()\<close>; \<open>es\<close> is the \<open>entries\<close> state of the page\<close>
  "handleRetryFailed ls now es =
     (let failedEntries = filter (\<lambda>e. HistoryEntry.status e = ''failed'') es
      in if length failedEntries = 0 then NoRetry
         else
           let retryEntries = map retryEntry failedEntries;
               sessionId = ''retry-'' @ String_of_int now
           in Retry (approveAndSubmit ls sessionId retryEntries False))"

definition retry_button :: "bool \<Rightarrow> HistoryEntry list \<Rightarrow> bool option" where
  \<comment> \<open>the retry button: rendered when \<open>totalFailed > 0\<close>, disabled while retrying\<close>
  "retry_button retrying es =
     (let totalFailed = length (filter (\<lambda>e. HistoryEntry.status e = ''failed'') es)
      in if totalFailed > 0 then Some retrying else None)"

section \<open>The progress page: \<open>pages/Progress.tsx\<close>\<close>

record progress_page =
  progress :: "ProgressData option"
  logs :: "string list"
  browsers :: "BrowserState list"
  polling :: bool

definition progress_initial :: progress_page where
  \<comment> \<open>the initial state; \<open>browsers\<close> is the array the source calls mock browser states\<close>
  "progress_initial =
     \<lparr>progress = None, logs = [],
      browsers = map (\<lambda>i. \<lparr>worker_id = int i, BrowserState.status = Some idle,
                              current_date = None\<rparr>) [0..<5],
      polling = True\<rparr>"

definition states :: "worker_status list" where
  "states = [navigating, filling, submitting]"

definition random_state :: "real \<Rightarrow> worker_status option" where
  \<comment> \<open>\<open>states[Math.floor(r * states.length)]\<close> for a value \<open>r\<close> of \<open>Math.random()\<close>,
      the product taken exactly\<close>
  "random_state r =
     (let k = \<lfloor>r * real (length states)\<rfloor>
      in if 0 \<le> k \<and> k < int (length states) then Some (states ! nat k) else None)"

definition add_log :: "string list \<Rightarrow> string \<Rightarrow> string list" where
  "add_log prev cur =
     (if cur = '''' then prev
      else if prev = [] \<or> last prev \<noteq> cur then prev @ [cur] else prev)"

definition simulate_browsers :: "(nat \<Rightarrow> real) \<Rightarrow> ProgressData \<Rightarrow> BrowserState list \<Rightarrow> BrowserState list" where
  \<comment> \<open>the update of \<open>browsers\<close> in \<open>poll\<close>; \<open>rnd i\<close> is the value \<open>Math.random()\<close>
      returns for the worker at index \<open>i\<close>\<close>
  "simulate_browsers rnd d prev =
     (if ProgressData.status d = Processing then
        map (\<lambda>(b, i).
               let entryIdx = completed d + int i
               in if entryIdx \<ge> total d then b\<lparr>BrowserState.status := Some idle\<rparr>
                  else b\<lparr>BrowserState.status := random_state (rnd i),
                         current_date := Some (''Entry '' @ String_of_int (entryIdx + 1))\<rparr>)
            (zip prev [0..<length prev])
      else if ProgressData.status d = Completed then
        map (\<lambda>b. b\<lparr>BrowserState.status := Some success, current_date := None\<rparr>) prev
      else prev)"

definition poll :: "(nat \<Rightarrow> real) \<Rightarrow> ProgressData option \<Rightarrow> progress_page \<Rightarrow> progress_page" where
  \<comment> \<open>one poll; the response is \<open>None\<close> when \<open>getProgress\<close> throws, which is ignored\<close>
  "poll rnd response pg =
     (case response of
        None \<Rightarrow> pg
      | Some d \<Rightarrow>
          pg\<lparr>progress := Some d,
             logs := add_log (logs pg) (current d),
             browsers := simulate_browsers rnd d (browsers pg),
             polling := (if ProgressData.status d = Completed \<or> ProgressData.status d = Failed
                         then False else polling pg)\<rparr>)"


definition displayed_workers :: "progress_page \<Rightarrow> BrowserState list option" where
  \<comment> \<open>the workers that \<open>BrowserSwarm\<close> draws; none once the job is done or has failed\<close>
  "displayed_workers pg =
     (let isDone = (map_option ProgressData.status (progress pg) = Some Completed);
          isFailed = (map_option ProgressData.status (progress pg) = Some Failed)
      in if \<not> isDone \<and> \<not> isFailed then Some (browsers pg) else None)"

section \<open>The date picker: \<open>components/CalendarPicker.tsx\<close>\<close>

function add_range :: "bool \<Rightarrow> Date \<Rightarrow> Date \<Rightarrow> Date list \<Rightarrow> Date list" where
  \<comment> \<open>the \<open>while\<close> loop of the range selection; \<open>cur\<close> and \<open>end'\<close> are its \<open>current\<close> and \<open>end\<close>\<close>
  "add_range skipWeekends end' cur newDates =
     (if cur \<le> end' then
        add_range skipWeekends end' (cur + ms_per_day)
          (if \<not> skipWeekends \<or> (getDay cur \<noteq> 0 \<and> getDay cur \<noteq> 6)
           then Set_add newDates cur else newDates)
      else newDates)"
  by pat_completeness auto
termination
  by (relation "measure (\<lambda>(w, e, c, n). nat (e + 1 - c))") (auto simp: ms_per_day_def)

declare add_range.simps [simp del]

text \<open>
  The picker has the properties \<open>selected\<close>, \<open>skipWeekends\<close> and \<open>skipHolidays\<close> and the
  state \<open>lastClicked\<close>. A click gives the new selection, which \<open>onSelect\<close> hands to the
  upload page, and the new \<open>lastClicked\<close>. The property \<open>selected\<close> is the field
  \<open>picked\<close> here, the review page having a \<open>selected\<close> of its own. The day picker of
  the library calls the handler with the start of the day that was clicked; a missing
  day is \<open>None\<close>.
\<close>

record picker =
  picked :: "Date list"
  lastClicked :: "Date option"

definition handleDayClick ::
  "bool \<Rightarrow> bool \<Rightarrow> picker \<Rightarrow> Date option \<Rightarrow> bool \<Rightarrow> picker" where
  "handleDayClick skipWeekends skipHolidays p day shiftKey =
     (case day of
        None \<Rightarrow> p
      | Some d \<Rightarrow>
          if skipWeekends \<and> (getDay d = 0 \<or> getDay d = 6) then p
          else
            let selectedSet = new_Set (picked p);
                dayTime = d
            in if shiftKey \<and> lastClicked p \<noteq> None then
                 let start = min (the (lastClicked p)) dayTime;
                     end' = max (the (lastClicked p)) dayTime;
                     newDates = new_Set selectedSet
                 in p\<lparr>picked := add_range skipWeekends end' start newDates\<rparr>
               else
                 let selectedSet =
                       (if Set_has selectedSet dayTime then Set_delete selectedSet dayTime
                        else Set_add selectedSet dayTime)
                 in p\<lparr>picked := selectedSet, lastClicked := Some d\<rparr>)"

section \<open>The upload page: \<open>pages/Upload.tsx\<close>\<close>

datatype date_mode = range | calendar

record upload_form =
  dateMode :: date_mode
  dateFrom :: string
  dateTo :: string
  selectedDates :: "Date list"
  skipWeekends :: bool
  skipHolidays :: bool

definition upload_initial :: "Date \<Rightarrow> upload_form" where
  \<comment> \<open>the form with nothing saved; \<open>now\<close> is the value of \<open>new Date()\<close>\<close>
  "upload_initial now =
     \<lparr>dateMode = calendar, dateFrom = '''', dateTo = '''', selectedDates = [now],
      skipWeekends = True, skipHolidays = True\<rparr>"

definition hasDates :: "upload_form \<Rightarrow> bool" where
  "hasDates f =
     (if dateMode f = range then dateFrom f \<noteq> '''' \<and> dateTo f \<noteq> ''''
      else length (selectedDates f) > 0)"

definition dateRange :: "upload_form \<Rightarrow> string" where
  \<comment> \<open>the \<open>dateRange\<close> that \<open>handleGenerate\<close> computes\<close>
  "dateRange f =
     (if dateMode f = range then dateFrom f @ '' to '' @ dateTo f
      else
        let sorted = sort (selectedDates f)
        in join '','' (map format_yyyy_MM_dd sorted))"

definition handleGenerate :: "localStorage \<Rightarrow> bool \<Rightarrow> string \<Rightarrow> upload_form \<Rightarrow> fetch_call option" where
  \<comment> \<open>the request for the preview; \<open>hasInput\<close> and the upload id come from the upload step\<close>
  "handleGenerate ls hasInput finalUploadId f =
     (let canSubmit = hasInput \<and> hasDates f
      in if \<not> canSubmit then None
         else Some (generatePreview ls finalUploadId (dateRange f) (skipWeekends f) (skipHolidays f)))"

definition picker_click :: "upload_form \<Rightarrow> Date option \<Rightarrow> Date option \<Rightarrow> bool \<Rightarrow> upload_form \<times> Date option" where
  \<comment> \<open>a click in the picker that the upload page renders with its own state as properties\<close>
  "picker_click f lc day shiftKey =
     (let p = handleDayClick (skipWeekends f) (skipHolidays f)
                \<lparr>picked = selectedDates f, lastClicked = lc\<rparr> day shiftKey
      in (f\<lparr>selectedDates := picked p\<rparr>, lastClicked p))"

section \<open>Example values\<close>

definition example_entry :: "string \<Rightarrow> real option \<Rightarrow> DiaryEntry" where
  "example_entry i pl =
     \<lparr>DiaryEntry.id' = i, DiaryEntry.date = ''2026-01-27'', DiaryEntry.hours = 8,
      DiaryEntry.activities = ''Wrote the parser tests'',
      DiaryEntry.learnings = ''Property testing'', DiaryEntry.blockers = ''None'',
      DiaryEntry.links = '''', DiaryEntry.skills = [''Python''], confidence = 0.9,
      plausibility = pl, editable = True\<rparr>"

definition example_response :: "PlausibilityReport option \<Rightarrow> real option \<Rightarrow> PreviewResponse" where
  "example_response rep pl =
     \<lparr>PreviewResponse.session_id = ''s1'',
      PreviewResponse.entries = [example_entry ''a'' pl, example_entry ''b'' pl, example_entry ''c'' pl],
      total_entries = 3, high_confidence_count = 3, needs_review_count = 0, warnings = [],
      plausibility_report = rep\<rparr>"

definition example_report :: PlausibilityReport where
  "example_report =
     \<lparr>overall_score = 0.3, avg_confidence = 0.9,
      flags = [''Entries of 26 and 27 January are nearly identical''], entry_scores = []\<rparr>"

definition example_history :: "int \<Rightarrow> string \<Rightarrow> HistoryEntry" where
  "example_history i st =
     \<lparr>HistoryEntry.id' = i, HistoryEntry.date = ''2026-01-27'', HistoryEntry.hours = 8,
      HistoryEntry.activities = ''Wrote the parser tests'',
      HistoryEntry.learnings = ''Property testing'', HistoryEntry.blockers = None,
      HistoryEntry.links = None, HistoryEntry.skills = Some [''Python''],
      HistoryEntry.status = st, confidence_score = None, submitted_at = ''2026-01-27T18:00:00''\<rparr>"

definition example_progress :: "int \<Rightarrow> int \<Rightarrow> job_status \<Rightarrow> BrowserState list option \<Rightarrow> ProgressData" where
  "example_progress t c s bs =
     \<lparr>total = t, completed = c, failed = 0, current = ''Submitting'',
      ProgressData.status = s, browser_states = bs\<rparr>"

definition example_workers :: "BrowserState list" where
  \<comment> \<open>worker states as a progress response may report them\<close>
  "example_workers =
     [\<lparr>worker_id = 0, BrowserState.status = Some error, current_date = Some ''2026-01-26''\<rparr>,
      \<lparr>worker_id = 1, BrowserState.status = Some submitting, current_date = Some ''2026-01-27''\<rparr>]"

section \<open>Properties\<close>

subsection \<open>Plausibility bands\<close>

text \<open>
  Claim C1. Every score falls in exactly one advisory band, and the bands have inclusive
  lower bounds: TERRIFYING (suspiciously perfect) from 0.95, DANGEROUS (strong) from 0.85
  up to 0.95, SOLID (acceptable) from 0.70 up to 0.85, PASSABLE (weak but usable) from
  0.50 up to 0.70, and WEAK, whose message asks for more input data, below 0.50. The
  gauge colour changes at the same four cut points.
\<close>

theorem getPlausibilityLevel_bands:
  "(label (getPlausibilityLevel s) = ''TERRIFYING'') = (0.95 \<le> s)
   \<and> (label (getPlausibilityLevel s) = ''DANGEROUS'') = (0.85 \<le> s \<and> s < 0.95)
   \<and> (label (getPlausibilityLevel s) = ''SOLID'') = (0.7 \<le> s \<and> s < 0.85)
   \<and> (label (getPlausibilityLevel s) = ''PASSABLE'') = (0.5 \<le> s \<and> s < 0.7)
   \<and> (label (getPlausibilityLevel s) = ''WEAK'') = (s < 0.5)
   \<and> (message (getPlausibilityLevel s) = ''Needs more input data to generate convincing entries.'')
       = (s < 0.5)
   \<and> (getColor s = ''#ef4444'') = (0.95 \<le> s)
   \<and> (getColor s = ''#f97316'') = (0.85 \<le> s \<and> s < 0.95)
   \<and> (getColor s = ''#eab308'') = (0.7 \<le> s \<and> s < 0.85)
   \<and> (getColor s = ''#3b82f6'') = (0.5 \<le> s \<and> s < 0.7)
   \<and> (getColor s = ''#71717a'') = (s < 0.5)"
  by (simp add: getPlausibilityLevel_def getColor_def)

subsection \<open>Credential headers\<close>

lemma set_header_apply:
  "set_header hs name v n =
     (if n = name \<and> v \<noteq> None \<and> v \<noteq> Some [] then v else hs n)"
  by (auto simp add: set_header_def split: option.split)

lemma getCredentials_Json: "getCredentials (Some (Json c)) = c"
  by (simp add: getCredentials_def)

lemma credentialHeaders_X_Groq_Key:
  "(credentialHeaders ls ''X-Groq-Key'' = Some v)
     = (getCredentials ls groq_api_key = Some v \<and> v \<noteq> '''')"
  by (auto simp add: credentialHeaders_def Let_def set_header_apply)

lemma credentialHeaders_X_Gemini_Key:
  "(credentialHeaders ls ''X-Gemini-Key'' = Some v)
     = (getCredentials ls gemini_api_key = Some v \<and> v \<noteq> '''')"
  by (auto simp add: credentialHeaders_def Let_def set_header_apply)

lemma credentialHeaders_X_Cerebras_Key:
  "(credentialHeaders ls ''X-Cerebras-Key'' = Some v)
     = (getCredentials ls cerebras_api_key = Some v \<and> v \<noteq> '''')"
  by (auto simp add: credentialHeaders_def Let_def set_header_apply)

lemma credentialHeaders_X_Openai_Key:
  "(credentialHeaders ls ''X-Openai-Key'' = Some v)
     = (getCredentials ls openai_api_key = Some v \<and> v \<noteq> '''')"
  by (auto simp add: credentialHeaders_def Let_def set_header_apply)

lemma credentialHeaders_X_LLM_Provider:
  "(credentialHeaders ls ''X-LLM-Provider'' = Some v)
     = (getCredentials ls llm_provider = Some v \<and> v \<noteq> '''')"
  by (auto simp add: credentialHeaders_def Let_def set_header_apply)

lemma credentialHeaders_X_Portal_User:
  "(credentialHeaders ls ''X-Portal-User'' = Some v)
     = (getCredentials ls vtu_username = Some v \<and> v \<noteq> '''')"
  by (auto simp add: credentialHeaders_def Let_def set_header_apply)

lemma credentialHeaders_X_Portal_Pass:
  "(credentialHeaders ls ''X-Portal-Pass'' = Some v)
     = (getCredentials ls vtu_password = Some v \<and> v \<noteq> '''')"
  by (auto simp add: credentialHeaders_def Let_def set_header_apply)

lemma credentialHeaders_other:
  assumes "n \<noteq> ''X-Groq-Key''" "n \<noteq> ''X-Gemini-Key''" "n \<noteq> ''X-Cerebras-Key''"
    "n \<noteq> ''X-Openai-Key''" "n \<noteq> ''X-LLM-Provider''" "n \<noteq> ''X-Portal-User''"
    "n \<noteq> ''X-Portal-Pass''"
  shows "credentialHeaders ls n = None"
  using assms by (simp add: credentialHeaders_def Let_def set_header_apply)

lemma dom_credentialHeaders:
  "dom (credentialHeaders ls)
     \<subseteq> {''X-Groq-Key'', ''X-Gemini-Key'', ''X-Cerebras-Key'', ''X-Openai-Key'',
        ''X-LLM-Provider'', ''X-Portal-User'', ''X-Portal-Pass''}"
proof
  fix n
  assume "n \<in> dom (credentialHeaders ls)"
  then have "credentialHeaders ls n \<noteq> None"
    by blast
  then show "n \<in> {''X-Groq-Key'', ''X-Gemini-Key'', ''X-Cerebras-Key'', ''X-Openai-Key'',
      ''X-LLM-Provider'', ''X-Portal-User'', ''X-Portal-Pass''}"
    using credentialHeaders_other [of n ls] unfolding insert_iff empty_iff by argo
qed

lemma sent_headers_authFetch:
  "sent_headers (authFetch ls u opts)
     = (case headers opts of None \<Rightarrow> Map.empty | Some h \<Rightarrow> h) ++ credentialHeaders ls"
  by (simp add: sent_headers_def authFetch_def Let_def)

lemma sent_headers_authFetch_apply:
  "sent_headers (authFetch ls u opts) n =
     (case credentialHeaders ls n of
        Some v \<Rightarrow> Some v
      | None \<Rightarrow> (case headers opts of None \<Rightarrow> None | Some h \<Rightarrow> h n))"
  by (simp add: sent_headers_authFetch map_add_def split: option.splits)

lemma api_calls_sent_headers:
  "sent_headers (uploadFile ls fl) = credentialHeaders ls
   \<and> sent_headers (uploadText ls txt) = credentialHeaders ls
   \<and> sent_headers (generatePreview ls uploadId dr sw sh) = credentialHeaders ls
   \<and> sent_headers (approveAndSubmit ls sessionId es dry)
       = [''Content-Type'' \<mapsto> ''application/json''] ++ credentialHeaders ls
   \<and> sent_headers (getProgress ls progressId) = credentialHeaders ls
   \<and> sent_headers (getHistory ls limit) = credentialHeaders ls
   \<and> sent_headers (getHistoryStats ls) = credentialHeaders ls"
  by (simp add: sent_headers_authFetch uploadFile_def uploadText_def generatePreview_def
      approveAndSubmit_def getProgress_def getHistory_def getHistoryStats_def no_init_def)

text \<open>
  Claim C2. \<open>credentialHeaders\<close> gives a capability's header the value \<open>v\<close> exactly when
  the stored credential is \<open>v\<close> and \<open>v\<close> is not empty, and it gives no other header than
  the seven. \<open>authFetch\<close> sends the caller's headers overridden by these, and each of the
  seven requests of the client goes through it: it sends the credential headers, and
  \<open>approveAndSubmit\<close> its content type besides.
\<close>

theorem credentialHeaders_override:
  "(credentialHeaders ls ''X-Groq-Key'' = Some v)
      = (getCredentials ls groq_api_key = Some v \<and> v \<noteq> '''')
   \<and> (credentialHeaders ls ''X-Gemini-Key'' = Some v)
      = (getCredentials ls gemini_api_key = Some v \<and> v \<noteq> '''')
   \<and> (credentialHeaders ls ''X-Cerebras-Key'' = Some v)
      = (getCredentials ls cerebras_api_key = Some v \<and> v \<noteq> '''')
   \<and> (credentialHeaders ls ''X-Openai-Key'' = Some v)
      = (getCredentials ls openai_api_key = Some v \<and> v \<noteq> '''')
   \<and> (credentialHeaders ls ''X-LLM-Provider'' = Some v)
      = (getCredentials ls llm_provider = Some v \<and> v \<noteq> '''')
   \<and> (credentialHeaders ls ''X-Portal-User'' = Some v)
      = (getCredentials ls vtu_username = Some v \<and> v \<noteq> '''')
   \<and> (credentialHeaders ls ''X-Portal-Pass'' = Some v)
      = (getCredentials ls vtu_password = Some v \<and> v \<noteq> '''')
   \<and> dom (credentialHeaders ls)
        \<subseteq> {''X-Groq-Key'', ''X-Gemini-Key'', ''X-Cerebras-Key'', ''X-Openai-Key'',
           ''X-LLM-Provider'', ''X-Portal-User'', ''X-Portal-Pass''}
   \<and> sent_headers (authFetch ls u opts) n =
        (case credentialHeaders ls n of
           Some w \<Rightarrow> Some w
         | None \<Rightarrow> (case headers opts of None \<Rightarrow> None | Some h \<Rightarrow> h n))
   \<and> sent_headers (uploadFile ls fl) = credentialHeaders ls
   \<and> sent_headers (uploadText ls txt) = credentialHeaders ls
   \<and> sent_headers (generatePreview ls uploadId dr sw sh) = credentialHeaders ls
   \<and> sent_headers (approveAndSubmit ls sessionId es dry)
       = [''Content-Type'' \<mapsto> ''application/json''] ++ credentialHeaders ls
   \<and> sent_headers (getProgress ls progressId) = credentialHeaders ls
   \<and> sent_headers (getHistory ls limit) = credentialHeaders ls
   \<and> sent_headers (getHistoryStats ls) = credentialHeaders ls"
  by (simp only: credentialHeaders_X_Groq_Key credentialHeaders_X_Gemini_Key
      credentialHeaders_X_Cerebras_Key credentialHeaders_X_Openai_Key
      credentialHeaders_X_LLM_Provider credentialHeaders_X_Portal_User
      credentialHeaders_X_Portal_Pass dom_credentialHeaders sent_headers_authFetch_apply
      api_calls_sent_headers simp_thms)

theorem credentialHeaders_override_witness:
  "credentialHeaders (Some (Json [groq_api_key \<mapsto> ''gsk_1'', gemini_api_key \<mapsto> '''']))
     ''X-Groq-Key'' = Some ''gsk_1''
   \<and> sent_headers
       (authFetch (Some (Json [groq_api_key \<mapsto> ''gsk_1'', gemini_api_key \<mapsto> '''']))
          ''/api/history/stats''
          \<lparr>method' = None, headers = Some [''X-Groq-Key'' \<mapsto> ''other''], body = None\<rparr>)
       ''X-Groq-Key'' = Some ''gsk_1''"
  using credentialHeaders_override
    [where ls = "Some (Json [groq_api_key \<mapsto> ''gsk_1'', gemini_api_key \<mapsto> ''''])"
       and v = "''gsk_1''" and n = "''X-Groq-Key''" and u = "''/api/history/stats''"
       and opts = "\<lparr>method' = None, headers = Some [''X-Groq-Key'' \<mapsto> ''other''],
                      body = None\<rparr>"]
  by (simp add: getCredentials_Json)

subsection \<open>Saving credentials\<close>

lemma strip_empty_fold:
  "foldl (\<lambda>m key. if m key = Some [] then m(key := None) else m) m ks k =
     (if k \<in> set ks \<and> m k = Some [] then None else m k)"
  by (induction ks arbitrary: m) auto

lemma set_cred_keys: "set cred_keys = UNIV"
proof -
  have "k \<in> set cred_keys" for k
    by (cases k) (simp_all add: cred_keys_def)
  then show ?thesis by blast
qed

lemma Object_keys_set: "set (Object_keys m) = dom m"
  unfolding Object_keys_def set_filter set_cred_keys by (auto simp: dom_def)

lemma getCredentials_saveCredentials:
  "getCredentials (saveCredentials ls creds) k =
     (case (getCredentials ls ++ creds) k of
        None \<Rightarrow> None
      | Some s \<Rightarrow> if s = [] then None else Some s)"
  by (auto simp add: saveCredentials_def Let_def getCredentials_Json strip_empty_fold
      Object_keys_set dom_def split: option.split)

lemma saveCredentials_no_empty: "getCredentials (saveCredentials ls creds) k \<noteq> Some []"
  by (simp add: getCredentials_saveCredentials split: option.split)

lemma saveCredentials_keeps:
  "creds k = None \<Longrightarrow> getCredentials ls k \<noteq> Some [] \<Longrightarrow>
   getCredentials (saveCredentials ls creds) k = getCredentials ls k"
  by (simp add: getCredentials_saveCredentials map_add_def split: option.split)

lemma saveCredentials_keeps_saved:
  "creds k = None \<Longrightarrow>
   getCredentials (saveCredentials (saveCredentials ls c0) creds) k
     = getCredentials (saveCredentials ls c0) k"
  by (rule saveCredentials_keeps) (simp_all add: saveCredentials_no_empty)

text \<open>
  Claim C9. \<open>saveCredentials\<close> stores the merge of the stored and the given credentials,
  the given ones winning, without the properties whose value is the empty string. So no
  stored property is the empty string, and a property that the update does not mention
  keeps the value it had (any value but the empty string, which only a store written by
  other means can hold; in particular any value that \<open>saveCredentials\<close> stored before).
\<close>

theorem saveCredentials_merge:
  "saveCredentials ls creds = Some (Json (getCredentials (saveCredentials ls creds)))
   \<and> getCredentials (saveCredentials ls creds) k =
       (case (getCredentials ls ++ creds) k of
          None \<Rightarrow> None
        | Some s \<Rightarrow> if s = '''' then None else Some s)
   \<and> getCredentials (saveCredentials ls creds) k \<noteq> Some ''''
   \<and> (creds k = None \<and> getCredentials ls k \<noteq> Some '''' \<longrightarrow>
        getCredentials (saveCredentials ls creds) k = getCredentials ls k)
   \<and> (creds k = None \<longrightarrow>
        getCredentials (saveCredentials (saveCredentials ls c0) creds) k
          = getCredentials (saveCredentials ls c0) k)"
proof -
  have "saveCredentials ls creds = Some (Json (getCredentials (saveCredentials ls creds)))"
    by (simp add: saveCredentials_def Let_def getCredentials_Json)
  then show ?thesis
    using getCredentials_saveCredentials [of ls creds k] saveCredentials_no_empty [of ls creds k]
      saveCredentials_keeps [of creds k ls] saveCredentials_keeps_saved [of creds k ls c0]
    by blast
qed

theorem saveCredentials_merge_witness:
  "getCredentials
     (saveCredentials (Some (Json [groq_api_key \<mapsto> ''gsk_1'', vtu_username \<mapsto> ''u1'']))
        [groq_api_key \<mapsto> '''', vtu_password \<mapsto> ''pw'']) groq_api_key = None
   \<and> getCredentials
     (saveCredentials (Some (Json [groq_api_key \<mapsto> ''gsk_1'', vtu_username \<mapsto> ''u1'']))
        [groq_api_key \<mapsto> '''', vtu_password \<mapsto> ''pw'']) vtu_username = Some ''u1''
   \<and> getCredentials
     (saveCredentials (Some (Json [groq_api_key \<mapsto> ''gsk_1'', vtu_username \<mapsto> ''u1'']))
        [groq_api_key \<mapsto> '''', vtu_password \<mapsto> ''pw'']) vtu_password = Some ''pw''"
  using
    saveCredentials_merge
      [of "Some (Json [groq_api_key \<mapsto> ''gsk_1'', vtu_username \<mapsto> ''u1''])"
          "[groq_api_key \<mapsto> '''', vtu_password \<mapsto> ''pw'']" groq_api_key Map.empty]
    saveCredentials_merge
      [of "Some (Json [groq_api_key \<mapsto> ''gsk_1'', vtu_username \<mapsto> ''u1''])"
          "[groq_api_key \<mapsto> '''', vtu_password \<mapsto> ''pw'']" vtu_username Map.empty]
    saveCredentials_merge
      [of "Some (Json [groq_api_key \<mapsto> ''gsk_1'', vtu_username \<mapsto> ''u1''])"
          "[groq_api_key \<mapsto> '''', vtu_password \<mapsto> ''pw'']" vtu_password Map.empty]
  by (simp add: getCredentials_Json)

subsection \<open>Double arithmetic and the completion percentage\<close>








lemma double_of_zero [simp]: "double_of 0 = 0"
  by (simp add: double_of_def)













subsection \<open>Launching a submission\<close>


lemma sent_payload_approveAndSubmit:
  "sent_payload (approveAndSubmit ls sid es dry)
     = Some \<lparr>session_id = sid, approved_entries = es, dry_run = dry\<rparr>"
  by (simp add: sent_payload_def approveAndSubmit_def authFetch_def Let_def)

lemma url_approveAndSubmit:
  "url (approveAndSubmit ls sid es dry) = ''/api/approve-and-submit''"
  by (simp add: approveAndSubmit_def authFetch_def Let_def BASE_def)

lemma Set_size_0: "(Set_size s = 0) = (s = [])"
  by (simp add: Set_size_def)

lemma updateEntry_ids:
  "map DiaryEntry.id' (entries (updateEntry u st)) = map DiaryEntry.id' (entries st)"
  by (simp add: updateEntry_def comp_def cong: if_cong)

text \<open>
  Claim C4. Launching with nothing selected sends nothing. Otherwise the request to
  approve and submit carries the session id of the generation, the dry-run flag, and as
  approved entries exactly the entries of the page (edited or not) whose id is selected,
  in the order of the page, which is a subsequence of the generated order: an entry that
  is not selected is not submitted. Editing an entry changes neither ids nor order.
\<close>

theorem handleLaunch_submits_selected:
  "(selected st = [] \<longrightarrow> handleLaunch ls st = NoLaunch)
   \<and> (selected st \<noteq> [] \<and> data st = Some d \<longrightarrow>
        (\<exists>c p. handleLaunch ls st = Launch c
           \<and> url c = ''/api/approve-and-submit''
           \<and> sent_payload c = Some p
           \<and> submit_payload.session_id p = PreviewResponse.session_id d
           \<and> dry_run p = dryRun st
           \<and> approved_entries p
               = filter (\<lambda>e. DiaryEntry.id' e \<in> set (selected st)) (entries st)
           \<and> subseq (approved_entries p) (entries st)
           \<and> (\<forall>e. (e \<in> set (approved_entries p))
                  = (e \<in> set (entries st) \<and> DiaryEntry.id' e \<in> set (selected st)))))
   \<and> map DiaryEntry.id' (entries (updateEntry u st)) = map DiaryEntry.id' (entries st)"
  by (simp add: handleLaunch_def Set_size_0 Set_has_def Let_def sent_payload_approveAndSubmit
      url_approveAndSubmit updateEntry_ids)

theorem handleLaunch_submits_selected_witness:
  "\<exists>c p. handleLaunch None
       ((preview_mount (Some (example_response None None)))
          \<lparr>selected := [''c'', ''a''], dryRun := True\<rparr>) = Launch c
     \<and> sent_payload c = Some p
     \<and> approved_entries p = [example_entry ''a'' None, example_entry ''c'' None]
     \<and> dry_run p = True
     \<and> submit_payload.session_id p = ''s1''"
  using handleLaunch_submits_selected
    [where ls = None and d = "example_response None None"
       and u = "example_entry ''a'' None"
       and st = "(preview_mount (Some (example_response None None)))
          \<lparr>selected := [''c'', ''a''], dryRun := True\<rparr>"]
  by (auto simp add: preview_mount_def preview_initial_def example_response_def example_entry_def)


subsection \<open>Retrying failed entries\<close>


lemma retryEntry_fields:
  "DiaryEntry.id' (retryEntry h) = String_of_int (HistoryEntry.id' h)
   \<and> DiaryEntry.date (retryEntry h) = HistoryEntry.date h
   \<and> DiaryEntry.hours (retryEntry h) = HistoryEntry.hours h
   \<and> DiaryEntry.activities (retryEntry h) = HistoryEntry.activities h
   \<and> DiaryEntry.learnings (retryEntry h) = HistoryEntry.learnings h
   \<and> editable (retryEntry h)"
  by (simp add: retryEntry_def)

lemma retryEntry_defaults:
  "(HistoryEntry.blockers h = None \<longrightarrow> DiaryEntry.blockers (retryEntry h) = ''None'')
   \<and> (HistoryEntry.links h = None \<longrightarrow> DiaryEntry.links (retryEntry h) = '''')
   \<and> (confidence_score h = None \<longrightarrow> confidence (retryEntry h) = 0.8)
   \<and> (HistoryEntry.skills h = None \<longrightarrow> DiaryEntry.skills (retryEntry h) = [])"
  by (simp add: retryEntry_def)

lemma retryEntry_present:
  "(HistoryEntry.blockers h = Some b \<and> b \<noteq> '''' \<longrightarrow> DiaryEntry.blockers (retryEntry h) = b)
   \<and> (HistoryEntry.links h = Some l \<longrightarrow> DiaryEntry.links (retryEntry h) = l)
   \<and> (confidence_score h = Some c \<and> c \<noteq> 0 \<longrightarrow> confidence (retryEntry h) = c)
   \<and> (HistoryEntry.skills h = Some ss \<longrightarrow> DiaryEntry.skills (retryEntry h) = ss)"
  by (simp add: retryEntry_def)

lemma handleRetryFailed_none:
  "filter (\<lambda>e. HistoryEntry.status e = ''failed'') es = [] \<Longrightarrow>
   handleRetryFailed ls now es = NoRetry \<and> retry_button r es = None"
  by (simp add: handleRetryFailed_def retry_button_def Let_def)

lemma handleRetryFailed_some:
  "filter (\<lambda>e. HistoryEntry.status e = ''failed'') es \<noteq> [] \<Longrightarrow>
   retry_button r es = Some r
   \<and> (\<exists>c p. handleRetryFailed ls now es = Retry c
         \<and> url c = ''/api/approve-and-submit''
         \<and> sent_payload c = Some p
         \<and> approved_entries p
             = map retryEntry (filter (\<lambda>e. HistoryEntry.status e = ''failed'') es)
         \<and> dry_run p = False
         \<and> submit_payload.session_id p = ''retry-'' @ String_of_int now)"
  by (simp add: handleRetryFailed_def retry_button_def Let_def sent_payload_approveAndSubmit
      url_approveAndSubmit)

text \<open>
  Claim C5. With no failed row in the history there is no retry button and the handler
  sends nothing. Otherwise the retry request carries, as a job that is not a dry run, the
  conversions of exactly the rows whose status is failed, in the order of the history;
  none of them has the status success. The conversion keeps id (as a string), date,
  hours, activities and learnings, and replaces missing blockers by None, missing links
  by the empty string and a missing confidence by 0.8.
\<close>

theorem handleRetryFailed_only_failed:
  "(filter (\<lambda>e. HistoryEntry.status e = ''failed'') es = [] \<longrightarrow>
      handleRetryFailed ls now es = NoRetry \<and> retry_button r es = None)
   \<and> (filter (\<lambda>e. HistoryEntry.status e = ''failed'') es \<noteq> [] \<longrightarrow>
      retry_button r es = Some r
      \<and> (\<exists>c p. handleRetryFailed ls now es = Retry c
            \<and> url c = ''/api/approve-and-submit''
            \<and> sent_payload c = Some p
            \<and> approved_entries p
                = map retryEntry (filter (\<lambda>e. HistoryEntry.status e = ''failed'') es)
            \<and> dry_run p = False
            \<and> submit_payload.session_id p = ''retry-'' @ String_of_int now))
   \<and> (\<forall>h \<in> set (filter (\<lambda>e. HistoryEntry.status e = ''failed'') es).
         h \<in> set es \<and> HistoryEntry.status h = ''failed'' \<and> HistoryEntry.status h \<noteq> ''success'')
   \<and> DiaryEntry.id' (retryEntry h) = String_of_int (HistoryEntry.id' h)
   \<and> DiaryEntry.date (retryEntry h) = HistoryEntry.date h
   \<and> DiaryEntry.hours (retryEntry h) = HistoryEntry.hours h
   \<and> DiaryEntry.activities (retryEntry h) = HistoryEntry.activities h
   \<and> DiaryEntry.learnings (retryEntry h) = HistoryEntry.learnings h
   \<and> (HistoryEntry.blockers h = None \<longrightarrow> DiaryEntry.blockers (retryEntry h) = ''None'')
   \<and> (HistoryEntry.links h = None \<longrightarrow> DiaryEntry.links (retryEntry h) = '''')
   \<and> (confidence_score h = None \<longrightarrow> confidence (retryEntry h) = 0.8)
   \<and> (HistoryEntry.blockers h = Some b \<and> b \<noteq> '''' \<longrightarrow> DiaryEntry.blockers (retryEntry h) = b)
   \<and> (HistoryEntry.links h = Some l \<longrightarrow> DiaryEntry.links (retryEntry h) = l)
   \<and> (confidence_score h = Some c \<and> c \<noteq> 0 \<longrightarrow> confidence (retryEntry h) = c)"
proof -
  have "\<forall>h \<in> set (filter (\<lambda>e. HistoryEntry.status e = ''failed'') es).
         h \<in> set es \<and> HistoryEntry.status h = ''failed'' \<and> HistoryEntry.status h \<noteq> ''success''"
    by simp
  then show ?thesis
    using handleRetryFailed_none [of es ls now r] handleRetryFailed_some [of es r ls now]
      retryEntry_fields [of h] retryEntry_defaults [of h] retryEntry_present [of h b l c]
    by (intro conjI impI) (simp_all only: simp_thms)
qed

theorem handleRetryFailed_only_failed_witness:
  "\<exists>c p. handleRetryFailed None 1769500000000
       [example_history 1 ''success'', example_history 2 ''failed'',
        example_history 3 ''success'', example_history 4 ''failed''] = Retry c
     \<and> sent_payload c = Some p
     \<and> map DiaryEntry.id' (approved_entries p) = [''2'', ''4'']
     \<and> map DiaryEntry.blockers (approved_entries p) = [''None'', ''None'']
     \<and> map confidence (approved_entries p) = [0.8, 0.8]
     \<and> submit_payload.session_id p = ''retry-1769500000000''"
  using handleRetryFailed_only_failed
    [where ls = None and now = 1769500000000 and r = False and h = "example_history 2 ''failed''"
       and es = "[example_history 1 ''success'', example_history 2 ''failed'',
        example_history 3 ''success'', example_history 4 ''failed'']"]
  by (auto simp add: example_history_def retryEntry_def String_of_int_def digits_of.simps)


subsection \<open>Plausibility does not block a launch\<close>


lemma without_plausibility_id [simp]:
  "DiaryEntry.id' (without_plausibility e) = DiaryEntry.id' e"
  by (simp add: without_plausibility_def)

lemma without_plausibility_same_id:
  "without_plausibility a = without_plausibility b \<Longrightarrow> DiaryEntry.id' a = DiaryEntry.id' b"
  by (metis without_plausibility_id)

lemma without_plausibility_ids:
  assumes "map without_plausibility xs = map without_plausibility ys"
  shows "map DiaryEntry.id' xs = map DiaryEntry.id' ys"
proof -
  have "map DiaryEntry.id' (map without_plausibility xs)
          = map DiaryEntry.id' (map without_plausibility ys)"
    using assms by simp
  then show ?thesis
    by (simp add: comp_def)
qed

lemma without_plausibility_update:
  "map without_plausibility xs = map without_plausibility ys \<Longrightarrow>
   map without_plausibility (map (\<lambda>e. if DiaryEntry.id' e = DiaryEntry.id' u then u else e) xs)
     = map without_plausibility (map (\<lambda>e. if DiaryEntry.id' e = DiaryEntry.id' u then u else e) ys)"
proof (induction xs arbitrary: ys)
  case Nil
  then show ?case by simp
next
  case (Cons x xs)
  then obtain y ys' where ys: "ys = y # ys'"
    by (cases ys) auto
  with Cons.prems have hd: "without_plausibility x = without_plausibility y"
    and tl: "map without_plausibility xs = map without_plausibility ys'"
    by simp_all
  from hd have "DiaryEntry.id' x = DiaryEntry.id' y"
    by (rule without_plausibility_same_id)
  with hd Cons.IH [OF tl] ys show ?case
    by simp
qed

lemma preview_similar_step:
  assumes "preview_similar st st'"
  shows "preview_similar (preview_step st a) (preview_step st' a)"
proof -
  from assms have wp: "map without_plausibility (entries st) = map without_plausibility (entries st')"
    by (simp add: preview_similar_def)
  from wp have ids: "map DiaryEntry.id' (entries st) = map DiaryEntry.id' (entries st')"
    by (rule without_plausibility_ids)
  from ids have len: "length (entries st) = length (entries st')"
    by (rule map_eq_imp_length_eq)
  from assms have btn: "launch_button st = launch_button st'"
    by (auto simp add: preview_similar_def launch_button_def split: option.splits)
  show ?thesis
  proof (cases a)
    case (ToggleEntry i)
    with assms show ?thesis
      by (simp add: preview_similar_def toggleEntry_def Let_def)
  next
    case SelectAll
    with assms ids len show ?thesis
      by (simp add: preview_similar_def selectAll_def)
  next
    case (UpdateEntry u)
    with assms without_plausibility_update [OF wp, of u] show ?thesis
      by (simp add: preview_similar_def updateEntry_def)
  next
    case (SetDryRun b)
    with assms show ?thesis
      by (simp add: preview_similar_def)
  next
    case ToggleReport
    with assms show ?thesis
      by (simp add: preview_similar_def)
  next
    case ClickLaunch
    with assms btn show ?thesis
      by (simp add: preview_similar_def handleLaunch_begin_def)
  next
    case LaunchSettled
    with assms show ?thesis
      by (simp add: preview_similar_def handleLaunch_finally_def)
  qed
qed

lemma preview_similar_run:
  "preview_similar st st' \<Longrightarrow> preview_similar (preview_run st acts) (preview_run st' acts)"
  unfolding preview_run_def
  by (induction acts arbitrary: st st') (simp_all add: preview_similar_step)




lemma preview_similar_mount:
  assumes "same_apart_from_plausibility r r'"
  shows "preview_similar (preview_mount (Some r)) (preview_mount (Some r'))"
proof -
  from assms have "map without_plausibility (PreviewResponse.entries r)
      = map without_plausibility (PreviewResponse.entries r')"
    by (simp add: same_apart_from_plausibility_def)
  then have "map DiaryEntry.id' (PreviewResponse.entries r)
      = map DiaryEntry.id' (PreviewResponse.entries r')"
    by (rule without_plausibility_ids)
  with assms show ?thesis
    by (simp add: preview_similar_def preview_mount_def preview_initial_def
        same_apart_from_plausibility_def)
qed

lemma preview_similar_launch_button:
  "preview_similar st st' \<Longrightarrow> launch_button st = launch_button st'"
  by (auto simp add: preview_similar_def launch_button_def split: option.splits)

lemma preview_similar_handleLaunch:
  "preview_similar st st' \<Longrightarrow>
   (\<exists>c. handleLaunch ls st = Launch c) = (\<exists>c. handleLaunch ls st' = Launch c)"
  by (auto simp add: preview_similar_def handleLaunch_def Let_def split: option.splits)

lemma launch_button_disabled:
  "(launch_button st = Some True) = (data st \<noteq> None \<and> (selected st = [] \<or> launching st))"
  by (auto simp add: launch_button_def Set_size_0 split: option.splits)

lemma launch_button_absent: "(launch_button st = None) = (data st = None)"
  by (simp add: launch_button_def split: option.splits)

text \<open>
  Claim C3. Take two generation results that differ only in plausibility values (the
  report, and the plausibility an entry carries) and let the reviewer do the same things
  on the page for each. Then the launch button is in the same state for both, and
  launching sends a request for both or for neither. The button is disabled exactly
  when nothing is selected or a launch is in flight; it is absent only without data.
\<close>

theorem plausibility_never_blocks_launch:
  assumes "same_apart_from_plausibility r r'"
  shows "launch_button (preview_run (preview_mount (Some r)) acts)
           = launch_button (preview_run (preview_mount (Some r')) acts)
    \<and> (\<exists>c. handleLaunch ls (preview_run (preview_mount (Some r)) acts) = Launch c)
        = (\<exists>c. handleLaunch ls (preview_run (preview_mount (Some r')) acts) = Launch c)
    \<and> (launch_button st = Some True)
        = (data st \<noteq> None \<and> (selected st = [] \<or> launching st))
    \<and> (launch_button st = None) = (data st = None)"
proof -
  have "preview_similar (preview_run (preview_mount (Some r)) acts)
          (preview_run (preview_mount (Some r')) acts)"
    using assms by (intro preview_similar_run preview_similar_mount)
  then show ?thesis
    using preview_similar_launch_button [of "preview_run (preview_mount (Some r)) acts"
        "preview_run (preview_mount (Some r')) acts"]
      preview_similar_handleLaunch [of "preview_run (preview_mount (Some r)) acts"
        "preview_run (preview_mount (Some r')) acts" ls]
      launch_button_disabled [of st] launch_button_absent [of st]
    by (simp only: simp_thms)
qed

theorem plausibility_never_blocks_launch_witness:
  "same_apart_from_plausibility (example_response None None)
     (example_response (Some example_report) (Some 0.1))
   \<and> launch_button
       (preview_run (preview_mount (Some (example_response None None)))
          [ToggleEntry ''b'', UpdateEntry (example_entry ''a'' (Some 0.2)), SetDryRun True])
       = Some False
   \<and> launch_button
       (preview_run (preview_mount (Some (example_response (Some example_report) (Some 0.1))))
          [ToggleEntry ''b'', UpdateEntry (example_entry ''a'' (Some 0.2)), SetDryRun True])
       = Some False"
proof -
  have h: "same_apart_from_plausibility (example_response None None)
     (example_response (Some example_report) (Some 0.1))"
    by (simp add: same_apart_from_plausibility_def example_response_def example_entry_def
        without_plausibility_def)
  have "launch_button
       (preview_run (preview_mount (Some (example_response None None)))
          [ToggleEntry ''b'', UpdateEntry (example_entry ''a'' (Some 0.2)), SetDryRun True])
       = Some False"
    by (simp add: preview_run_def preview_mount_def preview_initial_def example_response_def
        example_entry_def toggleEntry_def updateEntry_def new_Set_def Set_add_def Set_has_def
        Set_delete_def Set_size_def launch_button_def Let_def)
  with h plausibility_never_blocks_launch [OF h] show ?thesis
    by simp
qed


subsection \<open>The workers drawn on the progress page\<close>


lemma simulate_browsers_length: "length (simulate_browsers rnd d prev) = length prev"
  by (simp add: simulate_browsers_def)

lemma simulate_browsers_ignores_reported:
  "simulate_browsers rnd (d\<lparr>browser_states := bs\<rparr>) prev = simulate_browsers rnd d prev"
  by (simp add: simulate_browsers_def)

lemma simulate_browsers_processing:
  assumes "ProgressData.status d = Processing" and "i < length prev"
  shows "simulate_browsers rnd d prev ! i =
     (if completed d + int i \<ge> total d then (prev ! i)\<lparr>BrowserState.status := Some idle\<rparr>
      else (prev ! i)\<lparr>BrowserState.status := random_state (rnd i),
             current_date := Some (''Entry '' @ String_of_int (completed d + int i + 1))\<rparr>)"
  using assms by (simp add: simulate_browsers_def Let_def)

lemma simulate_browsers_completed:
  assumes "ProgressData.status d = Completed" and "i < length prev"
  shows "simulate_browsers rnd d prev ! i
     = (prev ! i)\<lparr>BrowserState.status := Some success, current_date := None\<rparr>"
  using assms by (simp add: simulate_browsers_def)

lemma simulate_browsers_failed:
  "ProgressData.status d = Failed \<Longrightarrow> simulate_browsers rnd d prev = prev"
  by (simp add: simulate_browsers_def)

lemma random_state_range:
  assumes "0 \<le> r" and "r < 1"
  shows "random_state r \<in> {Some navigating, Some filling, Some submitting}"
proof -
  have "0 \<le> \<lfloor>r * 3\<rfloor>"
    using assms by simp
  moreover have "\<lfloor>r * 3\<rfloor> < 3"
    using assms by (simp add: floor_less_iff)
  ultimately have "\<lfloor>r * 3\<rfloor> = 0 \<or> \<lfloor>r * 3\<rfloor> = 1 \<or> \<lfloor>r * 3\<rfloor> = 2"
    by linarith
  with assms show ?thesis
    by (auto simp add: random_state_def states_def Let_def)
qed

lemma browsers_poll: "browsers (poll rnd (Some d) pg) = simulate_browsers rnd d (browsers pg)"
  by (simp add: poll_def)

lemma displayed_workers_poll:
  "displayed_workers (poll rnd (Some d) pg)
     = (if ProgressData.status d = Processing then Some (simulate_browsers rnd d (browsers pg))
        else None)"
  by (cases "ProgressData.status d") (simp_all add: displayed_workers_def poll_def)

text \<open>
  Claim C7, as the code has it. The worker states that the page draws are simulated: a
  poll computes them from the counters and the job status of the progress response and
  from random draws, and does not read the worker states that the response reports.
  While the response says that the job is processing, as many workers are drawn as
  before; the worker at index i is idle when completed + i reaches the total, and
  otherwise shows one of navigating, filling and submitting, chosen at random, with the
  caption Entry (completed + i + 1). Once the response says that the job has completed
  or failed, no worker is drawn. A poll that fails changes nothing.
\<close>

theorem poll_displays_simulated_workers:
  "displayed_workers (poll rnd (Some (d\<lparr>browser_states := bs\<rparr>)) pg)
     = displayed_workers (poll rnd (Some d) pg)
   \<and> (ProgressData.status d = Processing \<longrightarrow>
        (\<exists>ws. displayed_workers (poll rnd (Some d) pg) = Some ws
           \<and> length ws = length (browsers pg)
           \<and> (\<forall>i < length ws.
                 (total d \<le> completed d + int i \<longrightarrow>
                    BrowserState.status (ws ! i) = Some idle)
                 \<and> (completed d + int i < total d \<and> 0 \<le> rnd i \<and> rnd i < 1 \<longrightarrow>
                    BrowserState.status (ws ! i)
                      \<in> {Some navigating, Some filling, Some submitting}
                    \<and> current_date (ws ! i)
                      = Some (''Entry '' @ String_of_int (completed d + int i + 1))))))
   \<and> (ProgressData.status d = Completed \<or> ProgressData.status d = Failed \<longrightarrow>
        displayed_workers (poll rnd (Some d) pg) = None)
   \<and> poll rnd None pg = pg"
proof (intro conjI impI)
  show "displayed_workers (poll rnd (Some (d\<lparr>browser_states := bs\<rparr>)) pg)
     = displayed_workers (poll rnd (Some d) pg)"
    by (simp add: displayed_workers_poll simulate_browsers_ignores_reported)
  show "\<exists>ws. displayed_workers (poll rnd (Some d) pg) = Some ws
           \<and> length ws = length (browsers pg)
           \<and> (\<forall>i < length ws.
                 (total d \<le> completed d + int i \<longrightarrow>
                    BrowserState.status (ws ! i) = Some idle)
                 \<and> (completed d + int i < total d \<and> 0 \<le> rnd i \<and> rnd i < 1 \<longrightarrow>
                    BrowserState.status (ws ! i)
                      \<in> {Some navigating, Some filling, Some submitting}
                    \<and> current_date (ws ! i)
                      = Some (''Entry '' @ String_of_int (completed d + int i + 1))))"
    if proc: "ProgressData.status d = Processing"
  proof (intro exI conjI allI impI)
    show "displayed_workers (poll rnd (Some d) pg)
        = Some (simulate_browsers rnd d (browsers pg))"
      using proc by (simp add: displayed_workers_poll)
    show "length (simulate_browsers rnd d (browsers pg)) = length (browsers pg)"
      by (rule simulate_browsers_length)
    fix i
    assume "i < length (simulate_browsers rnd d (browsers pg))"
    then have i: "i < length (browsers pg)"
      by (simp only: simulate_browsers_length)
    show "BrowserState.status (simulate_browsers rnd d (browsers pg) ! i) = Some idle"
      if "total d \<le> completed d + int i"
      using that by (simp add: simulate_browsers_processing [OF proc i])
    show "BrowserState.status (simulate_browsers rnd d (browsers pg) ! i)
        \<in> {Some navigating, Some filling, Some submitting}"
      if "completed d + int i < total d \<and> 0 \<le> rnd i \<and> rnd i < 1"
      using that random_state_range [of "rnd i"]
      by (simp add: simulate_browsers_processing [OF proc i])
    show "current_date (simulate_browsers rnd d (browsers pg) ! i)
        = Some (''Entry '' @ String_of_int (completed d + int i + 1))"
      if "completed d + int i < total d \<and> 0 \<le> rnd i \<and> rnd i < 1"
      using that by (simp add: simulate_browsers_processing [OF proc i])
  qed
  show "displayed_workers (poll rnd (Some d) pg) = None"
    if "ProgressData.status d = Completed \<or> ProgressData.status d = Failed"
    using that by (auto simp add: displayed_workers_poll)
  show "poll rnd None pg = pg"
    by (simp add: poll_def)
qed

theorem poll_displays_simulated_workers_witness:
  "(\<exists>ws. displayed_workers
          (poll (\<lambda>i. 1 / 2) (Some (example_progress 3 1 Processing (Some example_workers)))
             progress_initial) = Some ws
      \<and> length ws = 5
      \<and> BrowserState.status (ws ! 1) \<in> {Some navigating, Some filling, Some submitting}
      \<and> current_date (ws ! 1) = Some ''Entry 3''
      \<and> BrowserState.status (ws ! 2) = Some idle)
   \<and> displayed_workers
        (poll (\<lambda>i. 1 / 2) (Some (example_progress 3 3 Completed (Some example_workers)))
           progress_initial) = None"
proof -
  let ?d = "example_progress 3 1 Processing (Some example_workers)"
  from poll_displays_simulated_workers
      [where rnd = "\<lambda>i. 1 / 2" and d = ?d and pg = progress_initial and bs = None]
  obtain ws where ws: "displayed_workers (poll (\<lambda>i. 1 / 2) (Some ?d) progress_initial) = Some ws"
    and len: "length ws = length (browsers progress_initial)"
    and each: "\<forall>i < length ws.
        (total ?d \<le> completed ?d + int i \<longrightarrow> BrowserState.status (ws ! i) = Some idle)
        \<and> (completed ?d + int i < total ?d \<and> (0::real) \<le> 1 / 2 \<and> (1::real) / 2 < 1 \<longrightarrow>
             BrowserState.status (ws ! i) \<in> {Some navigating, Some filling, Some submitting}
             \<and> current_date (ws ! i) = Some (''Entry '' @ String_of_int (completed ?d + int i + 1)))"
    by (auto simp add: example_progress_def)
  have five: "length ws = 5"
    using len by (simp add: progress_initial_def)
  from each five have one: "BrowserState.status (ws ! 1) \<in> {Some navigating, Some filling, Some submitting}
      \<and> current_date (ws ! 1) = Some ''Entry 3''"
    by (simp add: example_progress_def String_of_int_def digits_of.simps)
  from each five have two: "BrowserState.status (ws ! 2) = Some idle"
    by (simp add: example_progress_def)
  have hidden: "displayed_workers
        (poll (\<lambda>i. 1 / 2) (Some (example_progress 3 3 Completed (Some example_workers)))
           progress_initial) = None"
    using poll_displays_simulated_workers
      [where rnd = "\<lambda>i. 1 / 2" and d = "example_progress 3 3 Completed (Some example_workers)"
         and pg = progress_initial and bs = None]
    by (simp add: example_progress_def)
  from ws five one two hidden show ?thesis
    by blast
qed

text \<open>
  Claim C7 as stated fails: the response reports worker 0 in error and worker 1
  submitting, and the page draws workers 0 and 1 navigating and three idle workers more.
\<close>

theorem poll_reported_states_counterexample:
  "browser_states (example_progress 2 0 Processing (Some example_workers)) = Some example_workers
   \<and> displayed_workers
        (poll (\<lambda>i. 0) (Some (example_progress 2 0 Processing (Some example_workers)))
           progress_initial)
      = Some
          [\<lparr>worker_id = 0, BrowserState.status = Some navigating, current_date = Some ''Entry 1''\<rparr>,
           \<lparr>worker_id = 1, BrowserState.status = Some navigating, current_date = Some ''Entry 2''\<rparr>,
           \<lparr>worker_id = 2, BrowserState.status = Some idle, current_date = None\<rparr>,
           \<lparr>worker_id = 3, BrowserState.status = Some idle, current_date = None\<rparr>,
           \<lparr>worker_id = 4, BrowserState.status = Some idle, current_date = None\<rparr>]
   \<and> displayed_workers
        (poll (\<lambda>i. 0) (Some (example_progress 2 0 Processing (Some example_workers)))
           progress_initial)
      \<noteq> Some example_workers"
  by (simp add: example_progress_def example_workers_def progress_initial_def poll_def
      simulate_browsers_def displayed_workers_def random_state_def states_def Let_def
      String_of_int_def digits_of.simps upt_rec)


subsection \<open>Selecting dates\<close>


lemma set_foldl_Set_add: "set (foldl Set_add acc xs) = set acc \<union> set xs"
  by (induction xs arbitrary: acc) (auto simp add: Set_add_def)

lemma distinct_foldl_Set_add: "distinct acc \<Longrightarrow> distinct (foldl Set_add acc xs)"
  by (induction xs arbitrary: acc) (auto simp add: Set_add_def)

lemma set_new_Set [simp]: "set (new_Set xs) = set xs"
  by (simp add: new_Set_def set_foldl_Set_add)

lemma distinct_new_Set [simp]: "distinct (new_Set xs)"
  by (simp add: new_Set_def distinct_foldl_Set_add)

lemma set_Set_add [simp]: "set (Set_add s x) = insert x (set s)"
  by (auto simp add: Set_add_def)

lemma distinct_Set_add [simp]: "distinct s \<Longrightarrow> distinct (Set_add s x)"
  by (simp add: Set_add_def)

lemma set_Set_delete [simp]: "set (Set_delete s x) = set s - {x}"
  by (simp add: Set_delete_def)

lemma distinct_Set_delete [simp]: "distinct s \<Longrightarrow> distinct (Set_delete s x)"
  by (simp add: Set_delete_def distinct_removeAll)

lemma add_range_added:
  "x \<in> set (add_range sw e c nd) \<Longrightarrow>
   x \<in> set nd \<or> (c \<le> x \<and> x \<le> e \<and> (\<not> sw \<or> (getDay x \<noteq> 0 \<and> getDay x \<noteq> 6)))"
proof (induction sw e c nd rule: add_range.induct)
  case (1 sw e c nd)
  show ?case
  proof (cases "c \<le> e")
    case True
    with "1.prems" have "x \<in> set (add_range sw e (c + ms_per_day)
          (if \<not> sw \<or> (getDay c \<noteq> 0 \<and> getDay c \<noteq> 6) then Set_add nd c else nd))"
      by (simp add: add_range.simps [of sw e c nd])
    from "1.IH" [OF True this] True show ?thesis
      by (auto simp add: ms_per_day_def split: if_splits)
  next
    case False
    with "1.prems" show ?thesis
      by (simp add: add_range.simps [of sw e c nd])
  qed
qed

lemma add_range_distinct: "distinct nd \<Longrightarrow> distinct (add_range sw e c nd)"
proof (induction sw e c nd rule: add_range.induct)
  case (1 sw e c nd)
  show ?case
  proof (cases "c \<le> e")
    case True
    have "distinct (if \<not> sw \<or> (getDay c \<noteq> 0 \<and> getDay c \<noteq> 6) then Set_add nd c else nd)"
      using "1.prems" by simp
    from "1.IH" [OF True this] True show ?thesis
      by (simp add: add_range.simps [of sw e c nd])
  next
    case False
    with "1.prems" show ?thesis
      by (simp add: add_range.simps [of sw e c nd])
  qed
qed

lemma handleDayClick_weekend_noop:
  "sw \<Longrightarrow> getDay d = 0 \<or> getDay d = 6 \<Longrightarrow> handleDayClick sw sh p (Some d) shift = p"
  by (simp add: handleDayClick_def)

lemma handleDayClick_added_weekday:
  assumes "sw" and "x \<in> set (picked (handleDayClick sw sh p day shift))"
  shows "x \<in> set (picked p) \<or> (getDay x \<noteq> 0 \<and> getDay x \<noteq> 6)"
proof (cases day)
  case None
  with assms show ?thesis
    by (simp add: handleDayClick_def)
next
  case (Some d)
  show ?thesis
  proof (cases "getDay d = 0 \<or> getDay d = 6")
    case True
    with assms Some show ?thesis
      by (simp add: handleDayClick_def)
  next
    case wd: False
    show ?thesis
    proof (cases "shift \<and> lastClicked p \<noteq> None")
      case True
      with assms Some wd have "x \<in> set (add_range sw (max (the (lastClicked p)) d)
          (min (the (lastClicked p)) d) (new_Set (new_Set (picked p))))"
        by (simp add: handleDayClick_def Let_def)
      from add_range_added [OF this] assms(1) show ?thesis
        by auto
    next
      case False
      with assms Some wd show ?thesis
        by (auto simp add: handleDayClick_def Let_def Set_has_def split: if_splits)
    qed
  qed
qed

lemma handleDayClick_ignores_skipHolidays:
  "handleDayClick sw sh p day shift = handleDayClick sw sh' p day shift"
  by (simp add: handleDayClick_def)

lemma handleDayClick_distinct:
  "distinct (picked p) \<Longrightarrow> distinct (picked (handleDayClick sw sh p day shift))"
  by (auto simp add: handleDayClick_def Let_def add_range_distinct split: option.splits)

lemma handleGenerate_form:
  assumes "hasDates f"
  shows "\<exists>c. handleGenerate ls True uid f = Some c
     \<and> url c = ''/api/generate-preview''
     \<and> body (init c) = Some (FormData
          [(''upload_id'', Text uid),
           (''date_range'', Text (dateRange f)),
           (''skip_weekends'', Text (String_of_bool (skipWeekends f))),
           (''skip_holidays'', Text (String_of_bool (skipHolidays f)))])"
  using assms
  by (simp add: handleGenerate_def generatePreview_def authFetch_def Let_def BASE_def)




text \<open>
  Claim C6, as the code has it. With skipping of weekends enabled, a click on a Sunday or
  a Saturday changes nothing, and any click, with or without shift, adds only weekdays to
  the selection: a date selected after the click was selected before it or is a weekday.
  The two skip flags travel to the generation request next to the date set.
\<close>

theorem handleDayClick_skips_weekends:
  "(sw \<and> (getDay d = 0 \<or> getDay d = 6) \<longrightarrow> handleDayClick sw sh p (Some d) shift = p)
   \<and> (sw \<and> x \<in> set (picked (handleDayClick sw sh p day shift)) \<longrightarrow>
        x \<in> set (picked p) \<or> (getDay x \<noteq> 0 \<and> getDay x \<noteq> 6))
   \<and> (hasDates f \<longrightarrow>
        (\<exists>c. handleGenerate ls True uid f = Some c
           \<and> url c = ''/api/generate-preview''
           \<and> body (init c) = Some (FormData
                [(''upload_id'', Text uid),
                 (''date_range'', Text (dateRange f)),
                 (''skip_weekends'', Text (String_of_bool (skipWeekends f))),
                 (''skip_holidays'', Text (String_of_bool (skipHolidays f)))])))"
proof (intro conjI impI)
  show "handleDayClick sw sh p (Some d) shift = p" if "sw \<and> (getDay d = 0 \<or> getDay d = 6)"
    using that by (simp add: handleDayClick_weekend_noop)
  show "x \<in> set (picked p) \<or> (getDay x \<noteq> 0 \<and> getDay x \<noteq> 6)"
    if "sw \<and> x \<in> set (picked (handleDayClick sw sh p day shift))"
    using that handleDayClick_added_weekday [of sw x sh p day shift] by blast
  show "\<exists>c. handleGenerate ls True uid f = Some c
           \<and> url c = ''/api/generate-preview''
           \<and> body (init c) = Some (FormData
                [(''upload_id'', Text uid),
                 (''date_range'', Text (dateRange f)),
                 (''skip_weekends'', Text (String_of_bool (skipWeekends f))),
                 (''skip_holidays'', Text (String_of_bool (skipHolidays f)))])"
    if "hasDates f"
    using that by (rule handleGenerate_form)
qed




theorem handleDayClick_skips_weekends_witness:
  "handleDayClick True True \<lparr>picked = [1769126400000], lastClicked = Some 1769126400000\<rparr>
       (Some 1769212800000) False
     = \<lparr>picked = [1769126400000], lastClicked = Some 1769126400000\<rparr>
   \<and> picked (handleDayClick True True
         \<lparr>picked = [1769126400000], lastClicked = Some 1769126400000\<rparr>
         (Some 1769472000000) True)
     = [1769126400000, 1769385600000, 1769472000000]
   \<and> getDay 1769385600000 \<noteq> 0 \<and> getDay 1769385600000 \<noteq> 6
   \<and> (\<exists>c. handleGenerate None True ''u1''
            ((upload_initial 1769126400000)\<lparr>selectedDates := [1769472000000, 1769126400000]\<rparr>)
          = Some c
        \<and> body (init c) = Some (FormData
             [(''upload_id'', Text ''u1''),
              (''date_range'', Text ''2026-01-23,2026-01-27''),
              (''skip_weekends'', Text ''true''),
              (''skip_holidays'', Text ''true'')]))"
proof -
  have range: "picked (handleDayClick True True
         \<lparr>picked = [1769126400000], lastClicked = Some 1769126400000\<rparr>
         (Some 1769472000000) True)
     = [1769126400000, 1769385600000, 1769472000000]"
    by code_simp
  have dates: "hasDates ((upload_initial 1769126400000)
      \<lparr>selectedDates := [1769472000000, 1769126400000]\<rparr>)"
    by code_simp
  have fmt: "dateRange ((upload_initial 1769126400000)
      \<lparr>selectedDates := [1769472000000, 1769126400000]\<rparr>) = ''2026-01-23,2026-01-27''"
    by code_simp
  have day: "getDay 1769212800000 = 6"
    by code_simp
  note inst = handleDayClick_skips_weekends
      [where sw = True and sh = True and d = 1769212800000
         and p = "\<lparr>picked = [1769126400000], lastClicked = Some 1769126400000\<rparr>"
         and x = 1769385600000 and day = "Some 1769472000000"
         and f = "(upload_initial 1769126400000)
            \<lparr>selectedDates := [1769472000000, 1769126400000]\<rparr>"
         and ls = None and uid = "''u1''"]
  have noop: "handleDayClick True True \<lparr>picked = [1769126400000], lastClicked = Some 1769126400000\<rparr>
       (Some 1769212800000) False
     = \<lparr>picked = [1769126400000], lastClicked = Some 1769126400000\<rparr>"
    using inst [where shift = False] day by blast
  have added: "getDay 1769385600000 \<noteq> 0 \<and> getDay 1769385600000 \<noteq> 6"
    using inst [where shift = True] range by simp
  have form: "\<exists>c. handleGenerate None True ''u1''
            ((upload_initial 1769126400000)\<lparr>selectedDates := [1769472000000, 1769126400000]\<rparr>)
          = Some c
        \<and> body (init c) = Some (FormData
             [(''upload_id'', Text ''u1''),
              (''date_range'', Text ''2026-01-23,2026-01-27''),
              (''skip_weekends'', Text ''true''),
              (''skip_holidays'', Text ''true'')])"
  proof -
    from inst [where shift = False] dates obtain c where
      c: "handleGenerate None True ''u1''
            ((upload_initial 1769126400000)\<lparr>selectedDates := [1769472000000, 1769126400000]\<rparr>)
          = Some c"
      and b: "body (init c) = Some (FormData
          [(''upload_id'', Text ''u1''),
           (''date_range'', Text (dateRange ((upload_initial 1769126400000)
               \<lparr>selectedDates := [1769472000000, 1769126400000]\<rparr>))),
           (''skip_weekends'', Text (String_of_bool (skipWeekends ((upload_initial 1769126400000)
               \<lparr>selectedDates := [1769472000000, 1769126400000]\<rparr>)))),
           (''skip_holidays'', Text (String_of_bool (skipHolidays ((upload_initial 1769126400000)
               \<lparr>selectedDates := [1769472000000, 1769126400000]\<rparr>))))])"
      by blast
    have "skipWeekends ((upload_initial 1769126400000)
               \<lparr>selectedDates := [1769472000000, 1769126400000]\<rparr>)"
      and "skipHolidays ((upload_initial 1769126400000)
               \<lparr>selectedDates := [1769472000000, 1769126400000]\<rparr>)"
      by (simp_all add: upload_initial_def)
    with b fmt have "body (init c) = Some (FormData
             [(''upload_id'', Text ''u1''),
              (''date_range'', Text ''2026-01-23,2026-01-27''),
              (''skip_weekends'', Text ''true''),
              (''skip_holidays'', Text ''true'')])"
      by (simp add: String_of_bool_def)
    with c show ?thesis
      by blast
  qed
  from noop range added form show ?thesis
    by (intro conjI) (assumption | simp)+
qed




text \<open>
  Claim C6 as stated fails. The page is opened on Saturday 24 January 2026 at 10:00, so
  that day is the default selection, with both skip flags enabled by default. A click on
  Monday 26 January, Republic Day, adds it: the date set handed to generation holds a
  Saturday and a public holiday.
\<close>

theorem picker_keeps_skipped_dates_counterexample:
  "skipWeekends (upload_initial 1769248800000)
   \<and> skipHolidays (upload_initial 1769248800000)
   \<and> getDay 1769248800000 = 6
   \<and> selectedDates (fst (picker_click (upload_initial 1769248800000) None
          (Some 1769385600000) False))
       = [1769248800000, 1769385600000]
   \<and> dateRange (fst (picker_click (upload_initial 1769248800000) None
          (Some 1769385600000) False))
       = ''2026-01-24,2026-01-26''"
  by code_simp



subsection \<open>The date range of the generation request\<close>

lemma dateRange_range_mode:
  "dateMode f = range \<Longrightarrow> dateRange f = dateFrom f @ '' to '' @ dateTo f"
  by (simp add: dateRange_def)

lemma dateRange_calendar_mode:
  "dateMode f = calendar \<Longrightarrow>
   dateRange f = join '','' (map format_yyyy_MM_dd (sort (selectedDates f)))
   \<and> sorted (sort (selectedDates f))
   \<and> (distinct (selectedDates f) \<longrightarrow> distinct (sort (selectedDates f)))"
  by (simp add: dateRange_def)



text \<open>
  Claim C8 fails on the code. The picker keeps the selection as a set of time stamps,
  and a click gives midnight of the day, but the default selection is the moment the page
  was opened. Opened on 3 November 2026 at 14:32, a click on 3 November does not unselect
  the day but adds its midnight, and the request carries the day twice.
\<close>

theorem dateRange_same_day_twice:
  "selectedDates (fst (picker_click (upload_initial 1793716320000) None
       (Some 1793664000000) False))
     = [1793716320000, 1793664000000]
   \<and> format_yyyy_MM_dd 1793716320000 = ''2026-11-03''
   \<and> format_yyyy_MM_dd 1793664000000 = ''2026-11-03''
   \<and> dateRange (fst (picker_click (upload_initial 1793716320000) None
       (Some 1793664000000) False))
     = ''2026-11-03,2026-11-03''
   \<and> handleGenerate None True ''u1''
         (fst (picker_click (upload_initial 1793716320000) None (Some 1793664000000) False))
     = Some (generatePreview None ''u1'' ''2026-11-03,2026-11-03'' True True)"
proof -
  let ?f = "fst (picker_click (upload_initial 1793716320000) None (Some 1793664000000) False)"
  have picked: "selectedDates ?f = [1793716320000, 1793664000000]"
    by code_simp
  have noon: "format_yyyy_MM_dd 1793716320000 = ''2026-11-03''"
    by code_simp
  have midnight: "format_yyyy_MM_dd 1793664000000 = ''2026-11-03''"
    by code_simp
  have sent: "dateRange ?f = ''2026-11-03,2026-11-03''"
    by code_simp
  have "hasDates ?f" and "skipWeekends ?f" and "skipHolidays ?f"
    by code_simp+
  then have "handleGenerate None True ''u1'' ?f
      = Some (generatePreview None ''u1'' ''2026-11-03,2026-11-03'' True True)"
    using sent by (simp add: handleGenerate_def)
  with picked noon midnight sent show ?thesis
    by (intro conjI)
qed

end
